theory Spec2Isabelle
  imports Main "HOL-Library.Word" "HOL-Library.Sublist" "HOL-Library.List_Lexorder"
begin

section \<open>The profile store of \<^verbatim>\<open>src/api.js\<close> (class \<^verbatim>\<open>UserAPI\<close>)\<close>

subsection \<open>Strings and values of the runtime\<close>

text \<open>
  A JavaScript string is a sequence of 16-bit code units. Source literals are ASCII and
  are written \<open>js ''...''\<close>.
\<close>

type_synonym jsstring = "16 word list"

definition js :: "string \<Rightarrow> jsstring" where
  "js s = map (\<lambda>c. word_of_nat (of_char c)) s"

text \<open>
  The values that reach the store: what \<^verbatim>\<open>response.json()\<close> can produce, the identifiers
  and partial records that callers pass, and \<^verbatim>\<open>undefined\<close>. \<open>Num\<close> stands for an
  integral Number; fractions, NaN and the infinities are outside the model. An object is
  the map of its own enumerable properties.
\<close>

datatype jsval =
    Undefined
  | Null
  | Bool bool
  | Num int
  | Str jsstring
  | Arr "jsval list"
  | Obj "jsstring \<Rightarrow> jsval option"

type_synonym jsobject = "jsstring \<Rightarrow> jsval option"

text \<open>What a \<^verbatim>\<open>throw\<close> carries: \<^verbatim>\<open>new Error(message)\<close>, the builtin error classes that
  the code of the store can run into, and any value thrown by a subscriber.\<close>

datatype js_error =
    Error jsstring
  | TypeError
  | URIError
  | SyntaxError
  | Thrown jsval

text \<open>ToBoolean, as used by \<^verbatim>\<open>if (userId)\<close> and \<^verbatim>\<open>||\<close>.\<close>

fun truthy :: "jsval \<Rightarrow> bool" where
  "truthy Undefined = False"
| "truthy Null = False"
| "truthy (Bool b) = b"
| "truthy (Num n) = (n \<noteq> 0)"
| "truthy (Str s) = (s \<noteq> [])"
| "truthy (Arr xs) = True"
| "truthy (Obj m) = True"

text \<open>Decimal rendering of a number, as ToString does for integral values below \<open>10^21\<close>.\<close>

definition digit :: "nat \<Rightarrow> 16 word" where
  "digit d = word_of_nat (48 + d)"

fun showNat :: "nat \<Rightarrow> jsstring" where
  "showNat n = (if n < 10 then [digit n] else showNat (n div 10) @ [digit (n mod 10)])"

declare showNat.simps [simp del]

definition showInt :: "int \<Rightarrow> jsstring" where
  "showInt i = (if i < 0 then js ''-'' @ showNat (nat (- i)) else showNat (nat i))"

fun joinWith :: "jsstring \<Rightarrow> jsstring list \<Rightarrow> jsstring" where
  "joinWith sep [] = []"
| "joinWith sep [x] = x"
| "joinWith sep (x # y # ys) = x @ sep @ joinWith sep (y # ys)"

text \<open>ToString, as applied by a template literal \<^verbatim>\<open>`user_${userId}`\<close>. An array is joined
  with commas, \<^verbatim>\<open>null\<close> and \<^verbatim>\<open>undefined\<close> elements rendering as the empty string.\<close>

fun toStr :: "jsval \<Rightarrow> jsstring" where
  "toStr Undefined = js ''undefined''"
| "toStr Null = js ''null''"
| "toStr (Bool b) = (if b then js ''true'' else js ''false'')"
| "toStr (Num n) = showInt n"
| "toStr (Str s) = s"
| "toStr (Arr xs) =
     joinWith (js '','')
       (map (\<lambda>x. case x of Undefined \<Rightarrow> [] | Null \<Rightarrow> [] | _ \<Rightarrow> toStr x) xs)"
| "toStr (Obj m) = js ''[object Object]''"

text \<open>
  Reading a property whose name no builtin prototype defines (\<^verbatim>\<open>id\<close>, \<^verbatim>\<open>name\<close>,
  \<^verbatim>\<open>email\<close>, \<^verbatim>\<open>username\<close>, \<^verbatim>\<open>phone\<close>, \<^verbatim>\<open>website\<close>, \<^verbatim>\<open>company\<close>): a TypeError on
  \<^verbatim>\<open>null\<close> and \<^verbatim>\<open>undefined\<close>, the own property of an object, \<^verbatim>\<open>undefined\<close> otherwise.
\<close>

fun getProp :: "jsval \<Rightarrow> jsstring \<Rightarrow> js_error + jsval" where
  "getProp Undefined k = Inl TypeError"
| "getProp Null k = Inl TypeError"
| "getProp (Obj m) k = Inr (case m k of Some v \<Rightarrow> v | None \<Rightarrow> Undefined)"
| "getProp v k = Inr Undefined"

text \<open>The own enumerable properties that object spread \<^verbatim>\<open>{...v}\<close> copies: those of an
  object, the indices of an array or of a string, none for the other primitives.\<close>

fun ownProps :: "jsval \<Rightarrow> jsobject" where
  "ownProps (Obj m) = m"
| "ownProps (Arr xs) = map_of (zip (map showNat [0..<length xs]) xs)"
| "ownProps (Str s) = map_of (zip (map showNat [0..<length s]) (map (\<lambda>c. Str [c]) s))"
| "ownProps v = Map.empty"

subsection \<open>\<^verbatim>\<open>encodeURIComponent\<close>\<close>

text \<open>The characters left as they are: letters, digits and \<^verbatim>\<open>- _ . ! ~ * ' ( )\<close>.\<close>

definition uriUnescaped :: "16 word \<Rightarrow> bool" where
  "uriUnescaped c \<longleftrightarrow>
     (0x41 \<le> c \<and> c \<le> 0x5A) \<or> (0x61 \<le> c \<and> c \<le> 0x7A) \<or> (0x30 \<le> c \<and> c \<le> 0x39) \<or>
     c \<in> set (js ''-_.!~*'' @ [0x27] @ js ''()'')"

definition hexDigit :: "nat \<Rightarrow> 16 word" where
  "hexDigit d = (if d < 10 then word_of_nat (48 + d) else word_of_nat (55 + d))"

definition percent :: "nat \<Rightarrow> jsstring" where
  "percent b = [0x25, hexDigit (b div 16), hexDigit (b mod 16)]"

text \<open>The UTF-8 bytes of a code point.\<close>

definition utf8 :: "nat \<Rightarrow> nat list" where
  "utf8 cp =
     (if cp < 0x80 then [cp]
      else if cp < 0x800 then [0xC0 + cp div 64, 0x80 + cp mod 64]
      else if cp < 0x10000 then
        [0xE0 + cp div 4096, 0x80 + (cp div 64) mod 64, 0x80 + cp mod 64]
      else
        [0xF0 + cp div 262144, 0x80 + (cp div 4096) mod 64,
         0x80 + (cp div 64) mod 64, 0x80 + cp mod 64])"

definition escapeCodePoint :: "nat \<Rightarrow> jsstring" where
  "escapeCodePoint cp = concat (map percent (utf8 cp))"

definition isHigh :: "16 word \<Rightarrow> bool" where
  "isHigh c \<longleftrightarrow> 0xD800 \<le> c \<and> c \<le> 0xDBFF"

definition isLow :: "16 word \<Rightarrow> bool" where
  "isLow c \<longleftrightarrow> 0xDC00 \<le> c \<and> c \<le> 0xDFFF"

text \<open>A surrogate pair is one code point; a surrogate without its partner is a URIError.\<close>

fun encodeURIComponent :: "jsstring \<Rightarrow> js_error + jsstring" where
  "encodeURIComponent [] = Inr []"
| "encodeURIComponent (c # cs) =
     (if uriUnescaped c then
        (case encodeURIComponent cs of Inl e \<Rightarrow> Inl e | Inr r \<Rightarrow> Inr (c # r))
      else if isLow c then Inl URIError
      else if isHigh c then
        (case cs of
           [] \<Rightarrow> Inl URIError
         | d # ds \<Rightarrow>
             if isLow d then
               (case encodeURIComponent ds of
                  Inl e \<Rightarrow> Inl e
                | Inr r \<Rightarrow>
                    Inr (escapeCodePoint
                          (0x10000 + (unat c - 0xD800) * 0x400 + (unat d - 0xDC00)) @ r))
             else Inl URIError)
      else
        (case encodeURIComponent cs of
           Inl e \<Rightarrow> Inl e
         | Inr r \<Rightarrow> Inr (escapeCodePoint (unat c) @ r)))"

subsection \<open>\<^verbatim>\<open>generateAvatarURL\<close>\<close>

text \<open>\<^verbatim>\<open>name.split(' ')\<close>: the pieces between single spaces, empty pieces included.\<close>

fun split_space :: "jsstring \<Rightarrow> jsstring list" where
  "split_space [] = [[]]"
| "split_space (c # cs) =
     (if c = 0x20 then [] # split_space cs
      else (case split_space cs of w # ws \<Rightarrow> (c # w) # ws | [] \<Rightarrow> [[c]]))"

definition charAt0 :: "jsstring \<Rightarrow> jsstring" where
  "charAt0 w = take 1 w"

text \<open>
  \<^verbatim>\<open>toUpperCase\<close> on the ASCII letters. The case mapping of the other characters is a
  table of the runtime and is left out: they are returned as they are. The value of
  \<^verbatim>\<open>generateAvatarURL\<close> does not depend on it, since the initials do not reach the URL.
\<close>

definition toUpperCase :: "jsstring \<Rightarrow> jsstring" where
  "toUpperCase s = map (\<lambda>c. if 0x61 \<le> c \<and> c \<le> 0x7A then c - 0x20 else c) s"

definition initials :: "jsstring \<Rightarrow> jsstring" where
  "initials name = take 2 (concat (map (\<lambda>word. toUpperCase (charAt0 word)) (split_space name)))"

definition avatarPrefix :: jsstring where
  "avatarPrefix = js ''https://ui-avatars.com/api/?name=''"

definition avatarSuffix :: jsstring where
  "avatarSuffix = js ''&size=80&background=667eea&color=ffffff&bold=true''"

text \<open>
  \<^verbatim>\<open>name.split\<close> is a TypeError unless \<^verbatim>\<open>name\<close> is a string. The local \<^verbatim>\<open>initials\<close> is
  computed and then not used: the template takes \<^verbatim>\<open>encodeURIComponent(name)\<close>.
\<close>

definition generateAvatarURL :: "jsval \<Rightarrow> js_error + jsstring" where
  "generateAvatarURL name =
     (case name of
        Str s \<Rightarrow>
          (let initials = initials s in
           case encodeURIComponent s of
             Inl e \<Rightarrow> Inl e
           | Inr enc \<Rightarrow> Inr (avatarPrefix @ enc @ avatarSuffix))
      | _ \<Rightarrow> Inl TypeError)"

subsection \<open>The state of a \<^verbatim>\<open>UserAPI\<close> instance and of the world around it\<close>

text \<open>
  A subscriber is a function object: \<open>ref\<close> is its identity (what the \<^verbatim>\<open>Set\<close> of
  subscribers compares), \<open>run\<close> is what a call does with the record it is given:
  \<open>None\<close> when it returns, \<open>Some e\<close> when it throws \<open>e\<close>. Subscribers that call back
  into the store while a broadcast is running are outside the model.
\<close>

datatype callback = Callback (ref: nat) (run: "jsobject \<Rightarrow> js_error option")

text \<open>A request handed to \<^verbatim>\<open>fetch\<close>: the URL, and for a PUT the data that is serialised
  into the body.\<close>

datatype request = GET jsstring | PUT jsstring jsval

text \<open>
  What the network answers: the promise of \<^verbatim>\<open>fetch\<close> rejects (transport failure), or it
  resolves to a response with a status and a body; the body is \<open>None\<close> when it is not
  JSON, so that \<^verbatim>\<open>response.json()\<close> rejects.
\<close>

datatype fetch_outcome = Rejects js_error | Resolves (status: nat) (body: "jsval option")

text \<open>\<^verbatim>\<open>response.ok\<close>: the status is in the range 200 to 299.\<close>

definition ok :: "nat \<Rightarrow> bool" where
  "ok s \<longleftrightarrow> 200 \<le> s \<and> s \<le> 299"

text \<open>
  \<open>cache\<close> and \<open>subscribers\<close> are the fields of the instance; the \<^verbatim>\<open>Set\<close> is the list of
  its elements in insertion order. The other three fields record what the instance does
  to the world, oldest first: the requests it issues, the calls of \<^verbatim>\<open>console.error\<close>
  (label and error), and the calls of subscribers (the subscriber and its argument).
\<close>

record api_state =
  cache :: "jsstring \<Rightarrow> jsobject option"
  subscribers :: "callback list"
  requests :: "request list"
  console :: "(jsstring \<times> js_error) list"
  delivered :: "(nat \<times> jsobject) list"

definition constructor :: api_state where
  "constructor =
     \<lparr>cache = Map.empty, subscribers = [], requests = [], console = [], delivered = []\<rparr>"

definition baseURL :: jsstring where
  "baseURL = js ''https://jsonplaceholder.typicode.com''"

definition cacheKey :: "jsval \<Rightarrow> jsstring" where
  "cacheKey userId = js ''user_'' @ toStr userId"

definition userURL :: "jsval \<Rightarrow> jsstring" where
  "userURL userId = baseURL @ js ''/users/'' @ toStr userId"

text \<open>A parameter with a default value takes it when the argument is \<^verbatim>\<open>undefined\<close>.\<close>

definition orDefault :: "jsval \<Rightarrow> jsval \<Rightarrow> jsval" where
  "orDefault d v = (case v of Undefined \<Rightarrow> d | _ \<Rightarrow> v)"

text \<open>The arguments of a call: a missing one is \<^verbatim>\<open>undefined\<close>, one beyond the
  parameters is ignored.\<close>

definition arg :: "jsval list \<Rightarrow> nat \<Rightarrow> jsval" where
  "arg args i = (if i < length args then args ! i else Undefined)"

definition andThen :: "'e + 'a \<Rightarrow> ('a \<Rightarrow> 'e + 'b) \<Rightarrow> 'e + 'b" where
  "andThen r f = (case r of Inl e \<Rightarrow> Inl e | Inr v \<Rightarrow> f v)"

subsection \<open>\<^verbatim>\<open>notifySubscribers\<close>, \<^verbatim>\<open>subscribe\<close>\<close>

text \<open>One round of the \<^verbatim>\<open>forEach\<close>: the call, and \<^verbatim>\<open>console.error\<close> when it throws.\<close>

definition invoke :: "jsobject \<Rightarrow> callback \<Rightarrow> api_state \<Rightarrow> api_state" where
  "invoke profileData callback st =
     (let st1 = st\<lparr>delivered := delivered st @ [(ref callback, profileData)]\<rparr> in
      case run callback profileData of
        None \<Rightarrow> st1
      | Some error \<Rightarrow>
          st1\<lparr>console := console st1 @ [(js ''Error in subscriber callback:'', error)]\<rparr>)"

definition notifySubscribers :: "api_state \<Rightarrow> jsobject \<Rightarrow> api_state" where
  "notifySubscribers st profileData = fold (invoke profileData) (subscribers st) st"

text \<open>\<^verbatim>\<open>Set.prototype.add\<close> and \<^verbatim>\<open>delete\<close>: an element that is in the set is not added
  again; deleting one that is not there changes nothing.\<close>

definition set_add :: "callback \<Rightarrow> callback list \<Rightarrow> callback list" where
  "set_add callback subs =
     (if ref callback \<in> set (map ref subs) then subs else subs @ [callback])"

definition set_delete :: "callback \<Rightarrow> callback list \<Rightarrow> callback list" where
  "set_delete callback subs = filter (\<lambda>c. ref c \<noteq> ref callback) subs"

text \<open>The function that \<^verbatim>\<open>subscribe\<close> returns.\<close>

definition unsubscribe :: "callback \<Rightarrow> api_state \<Rightarrow> api_state" where
  "unsubscribe callback st = st\<lparr>subscribers := set_delete callback (subscribers st)\<rparr>"

definition subscribe :: "api_state \<Rightarrow> callback \<Rightarrow> (api_state \<Rightarrow> api_state) \<times> api_state" where
  "subscribe st callback =
     (unsubscribe callback, st\<lparr>subscribers := set_add callback (subscribers st)\<rparr>)"

subsection \<open>\<^verbatim>\<open>fetchUserProfile\<close>\<close>

definition fetchFailed :: js_error where
  "fetchFailed = Error (js ''Failed to fetch user profile. Please try again later.'')"

text \<open>\<^verbatim>\<open>userData.company?.name || ''\<close>\<close>

definition companyName :: "jsval \<Rightarrow> js_error + jsval" where
  "companyName userData =
     andThen (getProp userData (js ''company'')) (\<lambda>company.
     andThen (case company of
                Undefined \<Rightarrow> Inr Undefined
              | Null \<Rightarrow> Inr Undefined
              | _ \<Rightarrow> getProp company (js ''name'')) (\<lambda>name.
     Inr (if truthy name then name else Str [])))"

text \<open>The object literal \<^verbatim>\<open>profileData\<close>; \<open>now\<close> is the value of
  \<^verbatim>\<open>new Date().toISOString()\<close> when it is evaluated.\<close>

definition transform :: "jsval \<Rightarrow> jsstring \<Rightarrow> js_error + jsobject" where
  "transform userData now =
     andThen (getProp userData (js ''id'')) (\<lambda>id.
     andThen (getProp userData (js ''name'')) (\<lambda>name.
     andThen (getProp userData (js ''email'')) (\<lambda>email.
     andThen (generateAvatarURL name) (\<lambda>avatar.
     andThen (getProp userData (js ''username'')) (\<lambda>username.
     andThen (getProp userData (js ''phone'')) (\<lambda>phone.
     andThen (getProp userData (js ''website'')) (\<lambda>website.
     andThen (companyName userData) (\<lambda>company.
     Inr [js ''id'' \<mapsto> id,
          js ''name'' \<mapsto> name,
          js ''email'' \<mapsto> email,
          js ''avatar'' \<mapsto> Str avatar,
          js ''username'' \<mapsto> username,
          js ''phone'' \<mapsto> phone,
          js ''website'' \<mapsto> website,
          js ''company'' \<mapsto> company,
          js ''lastUpdated'' \<mapsto> Str now]))))))))"

text \<open>The \<^verbatim>\<open>try\<close> block from the response on, up to the record.\<close>

definition fetched :: "fetch_outcome \<Rightarrow> jsstring \<Rightarrow> js_error + jsobject" where
  "fetched net now =
     (case net of
        Rejects e \<Rightarrow> Inl e
      | Resolves s b \<Rightarrow>
          if \<not> ok s then Inl (Error (js ''HTTP error! status: '' @ showNat s))
          else (case b of
                  None \<Rightarrow> Inl SyntaxError
                | Some userData \<Rightarrow> transform userData now))"

text \<open>
  \<open>net\<close> is what the network answers to the request, if one is issued, and \<open>now\<close> the
  reading of the clock when the record is built. The call runs to its end before the
  next operation on the store starts.
\<close>

definition fetchUserProfile ::
  "api_state \<Rightarrow> jsval \<Rightarrow> fetch_outcome \<Rightarrow> jsstring \<Rightarrow> (js_error + jsobject) \<times> api_state" where
  "fetchUserProfile st userId0 net now =
     (let userId = orDefault (Num 1) userId0;
          cacheKey = cacheKey userId
      in case cache st cacheKey of
           Some p \<Rightarrow> (Inr p, st)
         | None \<Rightarrow>
             (let st1 = st\<lparr>requests := requests st @ [GET (userURL userId)]\<rparr> in
              case fetched net now of
                Inl error \<Rightarrow>
                  (Inl fetchFailed,
                   st1\<lparr>console := console st1 @ [(js ''Error fetching user profile:'', error)]\<rparr>)
              | Inr profileData \<Rightarrow>
                  (Inr profileData, st1\<lparr>cache := (cache st1)(cacheKey \<mapsto> profileData)\<rparr>)))"

text \<open>A call \<^verbatim>\<open>fetchUserProfile(...args)\<close>: the function has one parameter.\<close>

definition fetchUserProfile_call ::
  "api_state \<Rightarrow> jsval list \<Rightarrow> fetch_outcome \<Rightarrow> jsstring \<Rightarrow> (js_error + jsobject) \<times> api_state" where
  "fetchUserProfile_call st args net now = fetchUserProfile st (arg args 0) net now"

subsection \<open>\<^verbatim>\<open>updateUserProfile\<close>\<close>

definition updateFailed :: js_error where
  "updateFailed = Error (js ''Failed to update user profile. Please try again later.'')"

text \<open>The \<^verbatim>\<open>try\<close> block from the response on, up to \<^verbatim>\<open>updatedData\<close>.\<close>

definition updated :: "fetch_outcome \<Rightarrow> js_error + jsval" where
  "updated net =
     (case net of
        Rejects e \<Rightarrow> Inl e
      | Resolves s b \<Rightarrow>
          if \<not> ok s then Inl (Error (js ''HTTP error! status: '' @ showNat s))
          else (case b of None \<Rightarrow> Inl SyntaxError | Some updatedData \<Rightarrow> Inr updatedData))"

text \<open>\<^verbatim>\<open>{...cachedData, ...updatedData, lastUpdated: now}\<close>\<close>

definition merge :: "jsobject \<Rightarrow> jsval \<Rightarrow> jsstring \<Rightarrow> jsobject" where
  "merge cachedData updatedData now =
     (cachedData ++ ownProps updatedData)(js ''lastUpdated'' \<mapsto> Str now)"

definition updateUserProfile ::
  "api_state \<Rightarrow> jsval \<Rightarrow> jsval \<Rightarrow> fetch_outcome \<Rightarrow> jsstring \<Rightarrow> (js_error + jsobject) \<times> api_state" where
  "updateUserProfile st userId profileData net now =
     (let st1 = st\<lparr>requests := requests st @ [PUT (userURL userId) profileData]\<rparr> in
      case updated net of
        Inl error \<Rightarrow>
          (Inl updateFailed,
           st1\<lparr>console := console st1 @ [(js ''Error updating user profile:'', error)]\<rparr>)
      | Inr updatedData \<Rightarrow>
          (let cacheKey = cacheKey userId;
               cachedData = (case cache st1 cacheKey of Some p \<Rightarrow> p | None \<Rightarrow> Map.empty);
               mergedData = merge cachedData updatedData now;
               st2 = st1\<lparr>cache := (cache st1)(cacheKey \<mapsto> mergedData)\<rparr>;
               st3 = notifySubscribers st2 mergedData
           in (Inr mergedData, st3)))"

subsection \<open>\<^verbatim>\<open>clearCache\<close>, \<^verbatim>\<open>simulateRealTimeUpdates\<close>\<close>

definition clearCache :: "api_state \<Rightarrow> jsval \<Rightarrow> api_state" where
  "clearCache st userId0 =
     (let userId = orDefault Null userId0 in
      if truthy userId then st\<lparr>cache := (cache st)(cacheKey userId := None)\<rparr>
      else st\<lparr>cache := Map.empty\<rparr>)"

text \<open>
  One run of the function that \<^verbatim>\<open>setInterval\<close> calls every 30 seconds. \<open>seen\<close> and
  \<open>now\<close> are the two readings of the clock, in the order of the object literal.
\<close>

definition tick :: "api_state \<Rightarrow> jsstring \<Rightarrow> jsstring \<Rightarrow> api_state" where
  "tick st seen now =
     (case cache st (js ''user_1'') of
        None \<Rightarrow> st
      | Some currentProfile \<Rightarrow>
          (let updatedProfile =
                 currentProfile(js ''lastSeen'' \<mapsto> Str seen, js ''lastUpdated'' \<mapsto> Str now);
               st1 = st\<lparr>cache := (cache st)(js ''user_1'' \<mapsto> updatedProfile)\<rparr>
           in notifySubscribers st1 updatedProfile))"

subsection \<open>Notions used to state the properties\<close>

text \<open>What \<^verbatim>\<open>console.error\<close> receives from the \<^verbatim>\<open>catch\<close> of \<^verbatim>\<open>notifySubscribers\<close> for one
  subscriber: nothing when the call returns, one entry when it throws.\<close>

definition thrownBy :: "jsobject \<Rightarrow> callback \<Rightarrow> (jsstring \<times> js_error) list" where
  "thrownBy d cb = (case run cb d of None \<Rightarrow> [] | Some e \<Rightarrow> [(js ''Error in subscriber callback:'', e)])"

text \<open>
  The \<^verbatim>\<open>lastUpdated\<close> field of a cache entry, and the order of two such stamps by the
  clock. \<^verbatim>\<open>toISOString\<close> gives strings of one fixed layout (for the years 0000 to 9999),
  so that the order of the instants is the order of the strings, code unit by code unit.
\<close>

definition lastUpdatedOf :: "api_state \<Rightarrow> jsstring \<Rightarrow> jsval option" where
  "lastUpdatedOf st k = (case cache st k of None \<Rightarrow> None | Some p \<Rightarrow> p (js ''lastUpdated''))"

definition stampLess :: "jsval option \<Rightarrow> jsval option \<Rightarrow> bool" where
  "stampLess a b = (case (a, b) of (Some (Str x), Some (Str y)) \<Rightarrow> x < y | _ \<Rightarrow> False)"

subsection \<open>Example data\<close>

text \<open>Two clock readings, a payload of the remote service, the record that
  \<^verbatim>\<open>fetchUserProfile\<close> builds from it, a subscriber that returns and one that throws, and
  instances that hold the record: for user 1, for user 1 with both subscribers registered,
  and for the users 1 and 2.\<close>

definition demoTime :: jsstring where
  "demoTime = js ''2024-05-01T10:00:00.000Z''"

definition laterTime :: jsstring where
  "laterTime = js ''2024-05-01T10:00:05.000Z''"

definition demoUser :: jsval where
  "demoUser = Obj [js ''id'' \<mapsto> Num 1, js ''name'' \<mapsto> Str (js ''Jane Doe''),
                   js ''email'' \<mapsto> Str (js ''jane@example.com'')]"

definition demoProfile :: jsobject where
  "demoProfile =
     [js ''id'' \<mapsto> Num 1,
      js ''name'' \<mapsto> Str (js ''Jane Doe''),
      js ''email'' \<mapsto> Str (js ''jane@example.com''),
      js ''avatar'' \<mapsto> Str (js ''https://ui-avatars.com/api/?name=Jane%20Doe&size=80&background=667eea&color=ffffff&bold=true''),
      js ''username'' \<mapsto> Undefined,
      js ''phone'' \<mapsto> Undefined,
      js ''website'' \<mapsto> Undefined,
      js ''company'' \<mapsto> Str [],
      js ''lastUpdated'' \<mapsto> Str demoTime]"

definition quietCallback :: callback where
  "quietCallback = Callback 1 (\<lambda>profileData. None)"

definition throwingCallback :: callback where
  "throwingCallback = Callback 2 (\<lambda>profileData. Some (Thrown (Str (js ''boom''))))"

definition demoState :: api_state where
  "demoState = constructor\<lparr>cache := [js ''user_1'' \<mapsto> demoProfile]\<rparr>"

definition cachedState :: api_state where
  "cachedState = demoState\<lparr>subscribers := [throwingCallback, quietCallback]\<rparr>"

definition twoUsers :: api_state where
  "twoUsers = constructor\<lparr>cache := [js ''user_1'' \<mapsto> demoProfile, js ''user_2'' \<mapsto> demoProfile]\<rparr>"

section \<open>Properties\<close>

subsection \<open>String literals\<close>

lemma unit_inj: "(word_of_nat (of_char c) :: 16 word) = word_of_nat (of_char d) \<longleftrightarrow> c = d"
proof
  assume h: "(word_of_nat (of_char c) :: 16 word) = word_of_nat (of_char d)"
  have c: "(of_char c :: nat) < 65536" and d: "(of_char d :: nat) < 65536"
    using nat_of_char_less_256[of c] nat_of_char_less_256[of d] by linarith+
  from h have "take_bit 16 (of_char c :: nat) = take_bit 16 (of_char d :: nat)"
    by (simp add: word_of_nat_eq_iff)
  with c d have "(of_char c :: nat) = of_char d"
    by (simp add: take_bit_nat_eq_self)
  then show "c = d" by simp
next
  assume "c = d" then show "(word_of_nat (of_char c) :: 16 word) = word_of_nat (of_char d)" by simp
qed

lemma js_eq_iff [simp]: "js a = js b \<longleftrightarrow> a = b"
proof -
  have "inj (\<lambda>c. word_of_nat (of_char c) :: 16 word)"
    by (rule injI) (simp only: unit_inj)
  then show ?thesis
    unfolding js_def by (rule inj_map_eq_map)
qed

lemma js_append [simp]: "js a @ js b = js (a @ b)"
  by (simp add: js_def)

lemma js_Nil [simp]: "js [] = []"
  by (simp add: js_def)

subsection \<open>Evaluation on the example data\<close>

lemma encode_Jane: "encodeURIComponent (js ''Jane Doe'') = Inr (js ''Jane%20Doe'')"
  by (simp add: js_def uriUnescaped_def isLow_def isHigh_def escapeCodePoint_def utf8_def percent_def hexDigit_def)

lemma avatar_Jane: "generateAvatarURL (Str (js ''Jane Doe'')) = Inr (js ''https://ui-avatars.com/api/?name=Jane%20Doe&size=80&background=667eea&color=ffffff&bold=true'')"
  by (simp add: generateAvatarURL_def avatarPrefix_def avatarSuffix_def encode_Jane)

lemma key1: "cacheKey (Num 1) = js ''user_1''"
  by (simp add: cacheKey_def showInt_def showNat.simps digit_def js_def)

lemma key2: "cacheKey (Num 2) = js ''user_2''"
  by (simp add: cacheKey_def showInt_def showNat.simps digit_def js_def)

lemma transform_demoUser: "transform demoUser demoTime = Inr demoProfile"
  by (simp add: transform_def demoUser_def companyName_def andThen_def demoProfile_def avatar_Jane)

lemma fetch_demo: "fetchUserProfile constructor (Num 1) (Resolves 200 (Some demoUser)) demoTime
   = (Inr demoProfile, demoState\<lparr>requests := [GET (userURL (Num 1))]\<rparr>)"
  by (simp add: fetchUserProfile_def orDefault_def key1 constructor_def fetched_def ok_def transform_demoUser demoState_def)


subsection \<open>The broadcast\<close>

lemma invoke_eq:
  "invoke d cb st =
     st\<lparr>delivered := delivered st @ [(ref cb, d)], console := console st @ thrownBy d cb\<rparr>"
  by (simp add: invoke_def thrownBy_def Let_def split: option.split)

lemma fold_invoke:
  "fold (invoke d) cbs st =
     st\<lparr>delivered := delivered st @ map (\<lambda>cb. (ref cb, d)) cbs,
        console := console st @ concat (map (thrownBy d) cbs)\<rparr>"
proof (induction cbs arbitrary: st)
  case Nil
  show ?case by simp
next
  case (Cons cb cbs)
  have "fold (invoke d) (cb # cbs) st = fold (invoke d) cbs (invoke d cb st)"
    by simp
  also have "\<dots> = (invoke d cb st)\<lparr>delivered := delivered (invoke d cb st) @ map (\<lambda>cb. (ref cb, d)) cbs,
        console := console (invoke d cb st) @ concat (map (thrownBy d) cbs)\<rparr>"
    by (rule Cons.IH)
  also have "\<dots> = st\<lparr>delivered := delivered st @ map (\<lambda>cb. (ref cb, d)) (cb # cbs),
        console := console st @ concat (map (thrownBy d) (cb # cbs))\<rparr>"
    by (simp add: invoke_eq)
  finally show ?case .
qed

lemma notifySubscribers_eq:
  "notifySubscribers st d =
     st\<lparr>delivered := delivered st @ map (\<lambda>cb. (ref cb, d)) (subscribers st),
        console := console st @ concat (map (thrownBy d) (subscribers st))\<rparr>"
  by (simp add: notifySubscribers_def fold_invoke)

lemma updated_failure:
  "net = Rejects e \<or> (net = Resolves s b \<and> \<not> ok s) \<Longrightarrow> \<exists>x. updated net = Inl x"
  by (auto simp: updated_def)

lemma fetched_failure:
  "net = Rejects e \<or> (net = Resolves s b \<and> \<not> ok s) \<Longrightarrow> \<exists>x. fetched net now = Inl x"
  by (auto simp: fetched_def)

lemma updateUserProfile_Inr:
  assumes "ok s"
  shows "updateUserProfile st userId profileData (Resolves s (Some updatedData)) now =
    (let mergedData = merge (case cache st (cacheKey userId) of Some p \<Rightarrow> p | None \<Rightarrow> Map.empty) updatedData now in
     (Inr mergedData,
      st\<lparr>requests := requests st @ [PUT (userURL userId) profileData],
         cache := (cache st)(cacheKey userId \<mapsto> mergedData),
         delivered := delivered st @ map (\<lambda>cb. (ref cb, mergedData)) (subscribers st),
         console := console st @ concat (map (thrownBy mergedData) (subscribers st))\<rparr>))"
  using assms by (simp add: updateUserProfile_def updated_def Let_def notifySubscribers_eq)

subsection \<open>The avatar URL\<close>

text \<open>
  C1. The specification has the avatar URL embed the uppercase initials of the name
  tokens, cut to two characters, so that "Jane Doe" gives a URL with "JD".
  \<^verbatim>\<open>generateAvatarURL\<close> computes these initials ("JD" here) and drops them: the URL,
  which a fetch of a user of that name stores in the field \<^verbatim>\<open>avatar\<close>, carries the
  percent-encoded full name, and "JD" occurs nowhere in it.
\<close>

theorem generateAvatarURL_Jane_Doe:
  "generateAvatarURL (Str (js ''Jane Doe'')) =
     Inr (js ''https://ui-avatars.com/api/?name=Jane%20Doe&size=80&background=667eea&color=ffffff&bold=true'')
   \<and> fst (fetchUserProfile constructor (Num 1) (Resolves 200 (Some demoUser)) demoTime)
       = Inr demoProfile
   \<and> demoProfile (js ''avatar'') =
       Some (Str (js ''https://ui-avatars.com/api/?name=Jane%20Doe&size=80&background=667eea&color=ffffff&bold=true''))
   \<and> initials (js ''Jane Doe'') = js ''JD''
   \<and> \<not> sublist (js ''JD'')
        (js ''https://ui-avatars.com/api/?name=Jane%20Doe&size=80&background=667eea&color=ffffff&bold=true'')"
proof (intro conjI)
  show "fst (fetchUserProfile constructor (Num 1) (Resolves 200 (Some demoUser)) demoTime)
       = Inr demoProfile"
    by (simp add: fetch_demo)
  show "demoProfile (js ''avatar'') =
       Some (Str (js ''https://ui-avatars.com/api/?name=Jane%20Doe&size=80&background=667eea&color=ffffff&bold=true''))"
    by (simp add: demoProfile_def)
  show "generateAvatarURL (Str (js ''Jane Doe'')) =
     Inr (js ''https://ui-avatars.com/api/?name=Jane%20Doe&size=80&background=667eea&color=ffffff&bold=true'')"
    by (rule avatar_Jane)
  show "initials (js ''Jane Doe'') = js ''JD''"
    by (simp add: initials_def js_def toUpperCase_def charAt0_def)
  show "\<not> sublist (js ''JD'')
        (js ''https://ui-avatars.com/api/?name=Jane%20Doe&size=80&background=667eea&color=ffffff&bold=true'')"
    by (simp add: js_def sublist_Cons_right)
qed

subsection \<open>Fetching\<close>

text \<open>
  C2. When the cache holds an entry for the key of \<open>userId\<close>, a call with
  \<open>forceRefresh\<close> false (the function has no such parameter: any second argument is
  ignored) returns that entry and leaves the state as it is: no request, no log entry.
  So of two calls in a row, the first of which misses the cache and succeeds, only the
  first issues a request, and the second returns the record that the first stored.
\<close>

theorem fetchUserProfile_cache_hit:
  "(cache st (cacheKey (orDefault (Num 1) userId)) = Some p \<longrightarrow>
      fetchUserProfile_call st [userId, forceRefresh] net now = (Inr p, st)) \<and>
   (cache st (cacheKey (orDefault (Num 1) userId)) = None \<and>
    fetchUserProfile_call st [userId] net now = (Inr p, st1) \<longrightarrow>
      requests st1 = requests st @ [GET (userURL (orDefault (Num 1) userId))] \<and>
      fetchUserProfile_call st1 [userId, forceRefresh] net' now' = (Inr p, st1))"
  by (auto simp: fetchUserProfile_call_def fetchUserProfile_def arg_def Let_def
      split: sum.splits)

theorem fetchUserProfile_cache_hit_witness:
  "fetchUserProfile_call demoState [Num 1, Bool False] (Rejects TypeError) demoTime
     = (Inr demoProfile, demoState) \<and>
   fetchUserProfile_call constructor [Num 1] (Resolves 200 (Some demoUser)) demoTime
     = (Inr demoProfile, demoState\<lparr>requests := [GET (userURL (Num 1))]\<rparr>) \<and>
   requests (demoState\<lparr>requests := [GET (userURL (Num 1))]\<rparr>) = requests constructor @ [GET (userURL (Num 1))] \<and>
   fetchUserProfile_call (demoState\<lparr>requests := [GET (userURL (Num 1))]\<rparr>) [Num 1, Bool False]
       (Rejects TypeError) demoTime
     = (Inr demoProfile, demoState\<lparr>requests := [GET (userURL (Num 1))]\<rparr>)"
proof -
  have hit: "cache demoState (cacheKey (orDefault (Num 1) (Num 1))) = Some demoProfile"
    by (simp add: orDefault_def key1 demoState_def)
  have miss: "cache constructor (cacheKey (orDefault (Num 1) (Num 1))) = None"
    by (simp add: constructor_def)
  have first: "fetchUserProfile_call constructor [Num 1] (Resolves 200 (Some demoUser)) demoTime
     = (Inr demoProfile, demoState\<lparr>requests := [GET (userURL (Num 1))]\<rparr>)"
    by (simp add: fetchUserProfile_call_def arg_def fetch_demo)
  from fetchUserProfile_cache_hit [of demoState "Num 1" demoProfile "Bool False" "Rejects TypeError" demoTime]
    hit
  have a: "fetchUserProfile_call demoState [Num 1, Bool False] (Rejects TypeError) demoTime
     = (Inr demoProfile, demoState)" by simp
  from fetchUserProfile_cache_hit [of constructor "Num 1" demoProfile "Bool False"
      "Resolves 200 (Some demoUser)" demoTime "demoState\<lparr>requests := [GET (userURL (Num 1))]\<rparr>"
      "Rejects TypeError" demoTime] miss first
  have b: "requests (demoState\<lparr>requests := [GET (userURL (Num 1))]\<rparr>) = requests constructor @ [GET (userURL (Num 1))] \<and>
   fetchUserProfile_call (demoState\<lparr>requests := [GET (userURL (Num 1))]\<rparr>) [Num 1, Bool False]
       (Rejects TypeError) demoTime
     = (Inr demoProfile, demoState\<lparr>requests := [GET (userURL (Num 1))]\<rparr>)"
    by (simp add: orDefault_def)
  from a first b show ?thesis by simp
qed

lemma transform_Obj:
  assumes "m (js ''name'') = Some (Str name)" and "encodeURIComponent name = Inr enc"
  shows "\<exists>p. transform (Obj m) now = Inr p"
  using assms
  by (simp add: transform_def andThen_def companyName_def generateAvatarURL_def
      split: jsval.split sum.split)

text \<open>
  C6. When no entry is cached for the key of \<open>userId\<close> and the request fails, by a transport
  error or by a status outside 200 to 299 (404, say), \<^verbatim>\<open>fetchUserProfile\<close> fails with the
  one fixed error of the function and the cache is unchanged, so the key is still absent.
  A later call for the same identifier that gets a successful response, with an object
  whose \<^verbatim>\<open>name\<close> is a well-formed string, returns a record and stores it under the key.
\<close>

theorem fetchUserProfile_failure:
  assumes "cache st (cacheKey (orDefault (Num 1) userId)) = None"
    and "net = Rejects e \<or> (net = Resolves s b \<and> \<not> ok s)"
    and "fetchUserProfile st userId net now = (r, st1)"
  shows "r = Inl fetchFailed \<and> cache st1 = cache st \<and>
    (\<forall>s' m name enc now'.
       ok s' \<and> m (js ''name'') = Some (Str name) \<and> encodeURIComponent name = Inr enc \<longrightarrow>
       (\<exists>p st2. fetchUserProfile st1 userId (Resolves s' (Some (Obj m))) now' = (Inr p, st2) \<and>
          cache st2 (cacheKey (orDefault (Num 1) userId)) = Some p \<and>
          requests st2 = requests st1 @ [GET (userURL (orDefault (Num 1) userId))]))"
proof -
  from assms(2) obtain x where x: "fetched net now = Inl x"
    using fetched_failure by blast
  with assms(1,3) have r: "r = Inl fetchFailed" and c: "cache st1 = cache st"
    by (auto simp: fetchUserProfile_def Let_def)
  have "\<exists>p st2. fetchUserProfile st1 userId (Resolves s' (Some (Obj m))) now' = (Inr p, st2) \<and>
          cache st2 (cacheKey (orDefault (Num 1) userId)) = Some p \<and>
          requests st2 = requests st1 @ [GET (userURL (orDefault (Num 1) userId))]"
    if "ok s'" and "m (js ''name'') = Some (Str name)" and "encodeURIComponent name = Inr enc"
    for s' m name enc now'
  proof -
    from that(2,3) obtain p where "transform (Obj m) now' = Inr p"
      using transform_Obj by blast
    with that(1) assms(1) c show ?thesis
      by (simp add: fetchUserProfile_def Let_def fetched_def)
  qed
  with r c show ?thesis by blast
qed

theorem fetchUserProfile_failure_witness:
  "fst (fetchUserProfile constructor (Num 1) (Resolves 404 None) demoTime) = Inl fetchFailed \<and>
   cache (snd (fetchUserProfile constructor (Num 1) (Resolves 404 None) demoTime)) = Map.empty \<and>
   (\<exists>p st2.
      fetchUserProfile (snd (fetchUserProfile constructor (Num 1) (Resolves 404 None) demoTime))
        (Num 1) (Resolves 200 (Some demoUser)) demoTime = (Inr p, st2) \<and>
      cache st2 (js ''user_1'') = Some p)"
proof -
  have miss: "cache constructor (cacheKey (orDefault (Num 1) (Num 1))) = None"
    by (simp add: constructor_def)
  have fails: "Resolves 404 None = Rejects TypeError \<or>
      (Resolves 404 None = Resolves 404 None \<and> \<not> ok 404)"
    by (simp add: ok_def)
  note inst = fetchUserProfile_failure [OF miss fails, of demoTime
      "fst (fetchUserProfile constructor (Num 1) (Resolves 404 None) demoTime)"
      "snd (fetchUserProfile constructor (Num 1) (Resolves 404 None) demoTime)"]
  from inst have fail: "fst (fetchUserProfile constructor (Num 1) (Resolves 404 None) demoTime) = Inl fetchFailed"
    and same: "cache (snd (fetchUserProfile constructor (Num 1) (Resolves 404 None) demoTime)) = cache constructor"
    and later: "\<forall>s' m name enc now'.
       ok s' \<and> m (js ''name'') = Some (Str name) \<and> encodeURIComponent name = Inr enc \<longrightarrow>
       (\<exists>p st2. fetchUserProfile (snd (fetchUserProfile constructor (Num 1) (Resolves 404 None) demoTime))
            (Num 1) (Resolves s' (Some (Obj m))) now' = (Inr p, st2) \<and>
          cache st2 (cacheKey (orDefault (Num 1) (Num 1))) = Some p \<and>
          requests st2 = requests (snd (fetchUserProfile constructor (Num 1) (Resolves 404 None) demoTime)) @
            [GET (userURL (orDefault (Num 1) (Num 1)))])"
    by simp_all
  have good: "ok 200 \<and>
      [js ''id'' \<mapsto> Num 1, js ''name'' \<mapsto> Str (js ''Jane Doe''),
       js ''email'' \<mapsto> Str (js ''jane@example.com'')] (js ''name'') = Some (Str (js ''Jane Doe'')) \<and>
      encodeURIComponent (js ''Jane Doe'') = Inr (js ''Jane%20Doe'')"
    by (simp add: ok_def encode_Jane)
  from good later [rule_format, of 200 "[js ''id'' \<mapsto> Num 1, js ''name'' \<mapsto> Str (js ''Jane Doe''),
       js ''email'' \<mapsto> Str (js ''jane@example.com'')]" "js ''Jane Doe''" "js ''Jane%20Doe''" demoTime]
  have "\<exists>p st2.
      fetchUserProfile (snd (fetchUserProfile constructor (Num 1) (Resolves 404 None) demoTime))
        (Num 1) (Resolves 200 (Some demoUser)) demoTime = (Inr p, st2) \<and>
      cache st2 (js ''user_1'') = Some p"
    by (auto simp: demoUser_def orDefault_def key1)
  with fail same show ?thesis by (simp add: constructor_def)
qed

subsection \<open>Updating\<close>

text \<open>
  C3. When the request of \<^verbatim>\<open>updateUserProfile\<close> fails, by a transport error or by a status
  outside 200 to 299, the call fails with the one fixed error of the function, whatever
  the cause was; the cache is what it was before the call, and no subscriber is called.
\<close>

theorem updateUserProfile_failure:
  assumes "net = Rejects e \<or> (net = Resolves s b \<and> \<not> ok s)"
    and "updateUserProfile st userId profileData net now = (r, st')"
  shows "r = Inl updateFailed \<and> cache st' = cache st \<and> delivered st' = delivered st
    \<and> subscribers st' = subscribers st"
proof -
  from assms(1) obtain x where "updated net = Inl x"
    using updated_failure by blast
  with assms(2) show ?thesis
    by (auto simp: updateUserProfile_def Let_def)
qed

theorem updateUserProfile_failure_witness:
  "fst (updateUserProfile cachedState (Num 1) (Obj [js ''name'' \<mapsto> Str (js ''X'')])
          (Resolves 500 None) demoTime) = Inl updateFailed
   \<and> cache (snd (updateUserProfile cachedState (Num 1) (Obj [js ''name'' \<mapsto> Str (js ''X'')])
          (Resolves 500 None) demoTime)) = cache cachedState
   \<and> delivered (snd (updateUserProfile cachedState (Num 1) (Obj [js ''name'' \<mapsto> Str (js ''X'')])
          (Resolves 500 None) demoTime)) = []"
proof -
  have "Resolves 500 None = Rejects TypeError \<or> (Resolves 500 None = Resolves 500 None \<and> \<not> ok 500)"
    by (simp add: ok_def)
  from updateUserProfile_failure [OF this, of cachedState "Num 1" "Obj [js ''name'' \<mapsto> Str (js ''X'')]" demoTime
      "fst (updateUserProfile cachedState (Num 1) (Obj [js ''name'' \<mapsto> Str (js ''X'')])
          (Resolves 500 None) demoTime)" 
      "snd (updateUserProfile cachedState (Num 1) (Obj [js ''name'' \<mapsto> Str (js ''X'')])
          (Resolves 500 None) demoTime)"]
  show ?thesis by (simp add: cachedState_def demoState_def constructor_def)
qed

text \<open>
  C4. On a successful response \<^verbatim>\<open>updateUserProfile\<close> returns and stores under the key of
  \<open>userId\<close> the merged record: \<^verbatim>\<open>lastUpdated\<close> is the reading of the clock, every other
  field is the response's when the response has it and the cached record's otherwise (so
  absent when both lack it). The calls of subscribers made by the operation are one for
  each registered subscriber, in the order of registration, each with the merged record.
\<close>

theorem updateUserProfile_success:
  assumes "ok s"
    and "updateUserProfile st userId profileData (Resolves s (Some updatedData)) now = (r, st')"
    and "cachedData = (case cache st (cacheKey userId) of Some p \<Rightarrow> p | None \<Rightarrow> Map.empty)"
  shows "\<exists>mergedData.
      r = Inr mergedData \<and>
      cache st' = (cache st)(cacheKey userId \<mapsto> mergedData) \<and>
      mergedData (js ''lastUpdated'') = Some (Str now) \<and>
      (\<forall>k. k \<noteq> js ''lastUpdated'' \<longrightarrow>
         mergedData k = (case ownProps updatedData k of Some v \<Rightarrow> Some v | None \<Rightarrow> cachedData k)) \<and>
      delivered st' = delivered st @ map (\<lambda>cb. (ref cb, mergedData)) (subscribers st) \<and>
      subscribers st' = subscribers st"
proof -
  let ?m = "merge cachedData updatedData now"
  from assms have r: "r = Inr ?m"
    and st': "st' = st\<lparr>requests := requests st @ [PUT (userURL userId) profileData],
         cache := (cache st)(cacheKey userId \<mapsto> ?m),
         delivered := delivered st @ map (\<lambda>cb. (ref cb, ?m)) (subscribers st),
         console := console st @ concat (map (thrownBy ?m) (subscribers st))\<rparr>"
    by (simp_all add: updateUserProfile_Inr Let_def)
  have "?m (js ''lastUpdated'') = Some (Str now)"
    by (simp add: merge_def)
  moreover have "\<forall>k. k \<noteq> js ''lastUpdated'' \<longrightarrow>
         ?m k = (case ownProps updatedData k of Some v \<Rightarrow> Some v | None \<Rightarrow> cachedData k)"
    by (simp add: merge_def map_add_def)
  ultimately show ?thesis using r st' by simp
qed

theorem updateUserProfile_success_witness:
  "(\<exists>mergedData.
      fst (updateUserProfile cachedState (Num 1) (Obj [js ''name'' \<mapsto> Str (js ''X'')])
          (Resolves 200 (Some (Obj [js ''name'' \<mapsto> Str (js ''X'')]))) (js ''2024-05-01T10:00:05.000Z''))
        = Inr mergedData \<and>
      mergedData (js ''name'') = Some (Str (js ''X'')) \<and>
      mergedData (js ''email'') = Some (Str (js ''jane@example.com'')) \<and>
      mergedData (js ''lastSeen'') = None \<and>
      mergedData (js ''lastUpdated'') = Some (Str (js ''2024-05-01T10:00:05.000Z'')) \<and>
      delivered (snd (updateUserProfile cachedState (Num 1) (Obj [js ''name'' \<mapsto> Str (js ''X'')])
          (Resolves 200 (Some (Obj [js ''name'' \<mapsto> Str (js ''X'')]))) (js ''2024-05-01T10:00:05.000Z'')))
        = [(2, mergedData), (1, mergedData)])"
proof -
  have ok: "ok 200" by (simp add: ok_def)
  have c: "demoProfile = (case cache cachedState (cacheKey (Num 1)) of Some p \<Rightarrow> p | None \<Rightarrow> Map.empty)"
    by (simp add: cachedState_def demoState_def key1)
  from updateUserProfile_success [OF ok _ c, of "Obj [js ''name'' \<mapsto> Str (js ''X'')]"
      "Obj [js ''name'' \<mapsto> Str (js ''X'')]" "js ''2024-05-01T10:00:05.000Z''"
      "fst (updateUserProfile cachedState (Num 1) (Obj [js ''name'' \<mapsto> Str (js ''X'')])
          (Resolves 200 (Some (Obj [js ''name'' \<mapsto> Str (js ''X'')]))) (js ''2024-05-01T10:00:05.000Z''))"
      "snd (updateUserProfile cachedState (Num 1) (Obj [js ''name'' \<mapsto> Str (js ''X'')])
          (Resolves 200 (Some (Obj [js ''name'' \<mapsto> Str (js ''X'')]))) (js ''2024-05-01T10:00:05.000Z''))"]
  obtain m where m: "fst (updateUserProfile cachedState (Num 1) (Obj [js ''name'' \<mapsto> Str (js ''X'')])
          (Resolves 200 (Some (Obj [js ''name'' \<mapsto> Str (js ''X'')]))) (js ''2024-05-01T10:00:05.000Z'')) = Inr m"
    and lu: "m (js ''lastUpdated'') = Some (Str (js ''2024-05-01T10:00:05.000Z''))"
    and rest: "\<forall>k. k \<noteq> js ''lastUpdated'' \<longrightarrow>
         m k = (case ownProps (Obj [js ''name'' \<mapsto> Str (js ''X'')]) k of Some v \<Rightarrow> Some v | None \<Rightarrow> demoProfile k)"
    and d: "delivered (snd (updateUserProfile cachedState (Num 1) (Obj [js ''name'' \<mapsto> Str (js ''X'')])
          (Resolves 200 (Some (Obj [js ''name'' \<mapsto> Str (js ''X'')]))) (js ''2024-05-01T10:00:05.000Z'')))
        = delivered cachedState @ map (\<lambda>cb. (ref cb, m)) (subscribers cachedState)"
    by auto
  from rest have "m (js ''name'') = Some (Str (js ''X''))"
    and "m (js ''email'') = Some (Str (js ''jane@example.com''))"
    and "m (js ''lastSeen'') = None"
    by (simp_all add: demoProfile_def)
  moreover from d have "delivered (snd (updateUserProfile cachedState (Num 1) (Obj [js ''name'' \<mapsto> Str (js ''X'')])
          (Resolves 200 (Some (Obj [js ''name'' \<mapsto> Str (js ''X'')]))) (js ''2024-05-01T10:00:05.000Z'')))
        = [(2, m), (1, m)]"
    by (simp add: cachedState_def demoState_def constructor_def throwingCallback_def quietCallback_def)
  ultimately show ?thesis using m lu by blast
qed


text \<open>
  C5. When a registered subscriber throws on the merged record, \<^verbatim>\<open>updateUserProfile\<close> still
  returns the record, the subscribers registered before and after the failing one are all
  called, and the thrown value goes to \<^verbatim>\<open>console.error\<close> and nowhere else.
\<close>

theorem subscriber_failure_isolated:
  assumes "ok s"
    and "updateUserProfile st userId profileData (Resolves s (Some updatedData)) now = (r, st')"
    and "mergedData =
      merge (case cache st (cacheKey userId) of Some p \<Rightarrow> p | None \<Rightarrow> Map.empty) updatedData now"
    and "subscribers st = before @ callback # after"
    and "run callback mergedData = Some e"
  shows "r = Inr mergedData \<and>
    delivered st' =
      delivered st @ map (\<lambda>cb. (ref cb, mergedData)) before @ (ref callback, mergedData) #
        map (\<lambda>cb. (ref cb, mergedData)) after \<and>
    console st' =
      console st @ concat (map (thrownBy mergedData) before) @
        (js ''Error in subscriber callback:'', e) # concat (map (thrownBy mergedData) after)"
proof -
  from assms(1,2,3) have r: "r = Inr mergedData"
    and st': "st' = st\<lparr>requests := requests st @ [PUT (userURL userId) profileData],
         cache := (cache st)(cacheKey userId \<mapsto> mergedData),
         delivered := delivered st @ map (\<lambda>cb. (ref cb, mergedData)) (subscribers st),
         console := console st @ concat (map (thrownBy mergedData) (subscribers st))\<rparr>"
    by (simp_all add: updateUserProfile_Inr Let_def)
  have t: "thrownBy mergedData callback = [(js ''Error in subscriber callback:'', e)]"
    using assms(5) by (simp add: thrownBy_def)
  show ?thesis
    by (simp add: r st' assms(4) t)
qed

theorem subscriber_failure_isolated_witness:
  "fst (updateUserProfile cachedState (Num 1) Undefined (Resolves 200 (Some Null)) demoTime)
     = Inr (merge demoProfile Null demoTime) \<and>
   delivered (snd (updateUserProfile cachedState (Num 1) Undefined (Resolves 200 (Some Null)) demoTime))
     = [(2, merge demoProfile Null demoTime), (1, merge demoProfile Null demoTime)] \<and>
   console (snd (updateUserProfile cachedState (Num 1) Undefined (Resolves 200 (Some Null)) demoTime))
     = [(js ''Error in subscriber callback:'', Thrown (Str (js ''boom'')))]"
proof -
  have ok: "ok 200" by (simp add: ok_def)
  have m: "merge demoProfile Null demoTime =
      merge (case cache cachedState (cacheKey (Num 1)) of Some p \<Rightarrow> p | None \<Rightarrow> Map.empty) Null demoTime"
    by (simp add: cachedState_def demoState_def key1)
  have subs: "subscribers cachedState = [] @ throwingCallback # [quietCallback]"
    by (simp add: cachedState_def)
  have thr: "run throwingCallback (merge demoProfile Null demoTime) = Some (Thrown (Str (js ''boom'')))"
    by (simp add: throwingCallback_def)
  from subscriber_failure_isolated [OF ok _ m subs thr, of Undefined
      "fst (updateUserProfile cachedState (Num 1) Undefined (Resolves 200 (Some Null)) demoTime)"
      "snd (updateUserProfile cachedState (Num 1) Undefined (Resolves 200 (Some Null)) demoTime)"]
  show ?thesis
    by (simp add: cachedState_def demoState_def constructor_def throwingCallback_def
        quietCallback_def thrownBy_def)
qed

subsection \<open>The periodic refresh\<close>

text \<open>
  C7. One run of the timer function does nothing at all when the cache has no entry for
  \<^verbatim>\<open>user_1\<close>: the state is the same, so nothing is stored, no subscriber is called and no
  entry appears. When there is an entry, the record that is stored under \<^verbatim>\<open>user_1\<close> and
  handed to every subscriber is the old one with \<^verbatim>\<open>lastSeen\<close> and \<^verbatim>\<open>lastUpdated\<close> set to
  the readings of the clock, every other field as before.
\<close>

theorem tick_frame:
  "(cache st (js ''user_1'') = None \<longrightarrow> tick st seen now = st) \<and>
   (cache st (js ''user_1'') = Some currentProfile \<longrightarrow>
      (\<exists>updatedProfile.
         cache (tick st seen now) = (cache st)(js ''user_1'' \<mapsto> updatedProfile) \<and>
         delivered (tick st seen now) =
           delivered st @ map (\<lambda>cb. (ref cb, updatedProfile)) (subscribers st) \<and>
         subscribers (tick st seen now) = subscribers st \<and>
         updatedProfile (js ''lastSeen'') = Some (Str seen) \<and>
         updatedProfile (js ''lastUpdated'') = Some (Str now) \<and>
         (\<forall>k. k \<noteq> js ''lastSeen'' \<and> k \<noteq> js ''lastUpdated'' \<longrightarrow>
            updatedProfile k = currentProfile k)))"
proof (intro conjI impI)
  assume "cache st (js ''user_1'') = None"
  then show "tick st seen now = st"
    by (simp add: tick_def)
next
  assume some: "cache st (js ''user_1'') = Some currentProfile"
  let ?u = "currentProfile(js ''lastSeen'' \<mapsto> Str seen, js ''lastUpdated'' \<mapsto> Str now)"
  have t: "tick st seen now =
      st\<lparr>cache := (cache st)(js ''user_1'' \<mapsto> ?u),
         delivered := delivered st @ map (\<lambda>cb. (ref cb, ?u)) (subscribers st),
         console := console st @ concat (map (thrownBy ?u) (subscribers st))\<rparr>"
    using some by (simp add: tick_def Let_def notifySubscribers_eq)
  show "\<exists>updatedProfile.
         cache (tick st seen now) = (cache st)(js ''user_1'' \<mapsto> updatedProfile) \<and>
         delivered (tick st seen now) =
           delivered st @ map (\<lambda>cb. (ref cb, updatedProfile)) (subscribers st) \<and>
         subscribers (tick st seen now) = subscribers st \<and>
         updatedProfile (js ''lastSeen'') = Some (Str seen) \<and>
         updatedProfile (js ''lastUpdated'') = Some (Str now) \<and>
         (\<forall>k. k \<noteq> js ''lastSeen'' \<and> k \<noteq> js ''lastUpdated'' \<longrightarrow>
            updatedProfile k = currentProfile k)"
    by (rule exI [of _ ?u]) (simp add: t)
qed

theorem tick_frame_witness:
  "tick constructor demoTime demoTime = constructor \<and>
   (\<exists>updatedProfile.
      cache (tick cachedState (js ''2024-05-01T10:00:30.000Z'') (js ''2024-05-01T10:00:30.001Z''))
        (js ''user_1'') = Some updatedProfile \<and>
      delivered (tick cachedState (js ''2024-05-01T10:00:30.000Z'') (js ''2024-05-01T10:00:30.001Z''))
        = [(2, updatedProfile), (1, updatedProfile)] \<and>
      updatedProfile (js ''lastSeen'') = Some (Str (js ''2024-05-01T10:00:30.000Z'')) \<and>
      updatedProfile (js ''lastUpdated'') = Some (Str (js ''2024-05-01T10:00:30.001Z'')) \<and>
      updatedProfile (js ''name'') = Some (Str (js ''Jane Doe'')))"
proof -
  have none: "cache constructor (js ''user_1'') = None"
    by (simp add: constructor_def)
  have some: "cache cachedState (js ''user_1'') = Some demoProfile"
    by (simp add: cachedState_def demoState_def)
  from tick_frame [where st = constructor and seen = demoTime and now = demoTime] none
  have a: "tick constructor demoTime demoTime = constructor"
    by simp
  from tick_frame [where st = cachedState and currentProfile = demoProfile
      and seen = "js ''2024-05-01T10:00:30.000Z''" and now = "js ''2024-05-01T10:00:30.001Z''"] some
  obtain u where
    c: "cache (tick cachedState (js ''2024-05-01T10:00:30.000Z'') (js ''2024-05-01T10:00:30.001Z''))
       = (cache cachedState)(js ''user_1'' \<mapsto> u)"
    and d: "delivered (tick cachedState (js ''2024-05-01T10:00:30.000Z'') (js ''2024-05-01T10:00:30.001Z''))
       = delivered cachedState @ map (\<lambda>cb. (ref cb, u)) (subscribers cachedState)"
    and ls: "u (js ''lastSeen'') = Some (Str (js ''2024-05-01T10:00:30.000Z''))"
    and lu: "u (js ''lastUpdated'') = Some (Str (js ''2024-05-01T10:00:30.001Z''))"
    and other: "\<forall>k. k \<noteq> js ''lastSeen'' \<and> k \<noteq> js ''lastUpdated'' \<longrightarrow> u k = demoProfile k"
    by auto
  from c have c': "cache (tick cachedState (js ''2024-05-01T10:00:30.000Z'') (js ''2024-05-01T10:00:30.001Z''))
        (js ''user_1'') = Some u"
    by simp
  from d have d': "delivered (tick cachedState (js ''2024-05-01T10:00:30.000Z'') (js ''2024-05-01T10:00:30.001Z''))
        = [(2, u), (1, u)]"
    by (simp add: cachedState_def demoState_def constructor_def throwingCallback_def quietCallback_def)
  from other have n: "u (js ''name'') = Some (Str (js ''Jane Doe''))"
    by (simp add: demoProfile_def)
  from a c' d' ls lu n show ?thesis by blast
qed

subsection \<open>Invalidation\<close>

text \<open>
  C10. \<^verbatim>\<open>clearCache\<close> tests the identifier for truthiness: with a falsy one (\<^verbatim>\<open>0\<close>,
  \<^verbatim>\<open>null\<close>, the empty string, or none at all) it empties the whole cache; only with a truthy
  one does it remove the single entry of that identifier. So \<^verbatim>\<open>clearCache(0)\<close> removes the
  records of all users. Nothing else of the state changes.
\<close>

theorem clearCache_falsy:
  "(\<not> truthy userId \<longrightarrow> cache (clearCache st userId) = Map.empty) \<and>
   (truthy userId \<longrightarrow> cache (clearCache st userId) = (cache st)(cacheKey userId := None)) \<and>
   cache (clearCache st (Num 0)) = Map.empty \<and>
   cache (clearCache st Null) = Map.empty \<and>
   cache (clearCache st (Str [])) = Map.empty \<and>
   cache (clearCache st Undefined) = Map.empty \<and>
   subscribers (clearCache st userId) = subscribers st \<and>
   delivered (clearCache st userId) = delivered st \<and>
   requests (clearCache st userId) = requests st"
  by (cases userId) (simp_all add: clearCache_def orDefault_def Let_def)

theorem clearCache_falsy_witness:
  "cache twoUsers (js ''user_1'') = Some demoProfile \<and>
   cache twoUsers (js ''user_2'') = Some demoProfile \<and>
   cache (clearCache twoUsers (Num 0)) (js ''user_1'') = None \<and>
   cache (clearCache twoUsers (Num 0)) (js ''user_2'') = None \<and>
   cache (clearCache twoUsers (Num 2)) (js ''user_1'') = Some demoProfile \<and>
   cache (clearCache twoUsers (Num 2)) (js ''user_2'') = None"
proof -
  have f: "\<not> truthy (Num 0)" and t: "truthy (Num 2)"
    by simp_all
  from clearCache_falsy [of "Num 0" twoUsers] f
  have a: "cache (clearCache twoUsers (Num 0)) = Map.empty"
    by simp
  from clearCache_falsy [of "Num 2" twoUsers] t
  have b: "cache (clearCache twoUsers (Num 2)) = (cache twoUsers)(cacheKey (Num 2) := None)"
    by simp
  show ?thesis
    by (simp add: a b key2) (simp add: twoUsers_def)
qed

subsection \<open>Subscriptions\<close>

lemma count_list_distinct:
  "distinct xs \<Longrightarrow> x \<in> set xs \<Longrightarrow> count_list xs x = 1"
  by (induction xs) auto

lemma set_add_distinct:
  "distinct (map ref subs) \<Longrightarrow> distinct (map ref (set_add callback subs))"
  by (simp add: set_add_def)

lemma set_add_member:
  "ref callback \<in> set (map ref (set_add callback subs))"
  by (simp add: set_add_def)

lemma set_add_twice:
  "set_add callback (set_add callback subs) = set_add callback subs"
  using set_add_member [of callback subs] by (simp add: set_add_def [of callback "set_add callback subs"])

lemma set_delete_add:
  "set_delete callback (set_add callback subs) = set_delete callback subs"
  by (simp add: set_delete_def set_add_def)

text \<open>The list of subscribers of an instance never holds a function object twice: it
  starts empty, and subscribing and disposing keep it so.\<close>

lemma constructor_distinct: "distinct (map ref (subscribers constructor))"
  by (simp add: constructor_def)

lemma subscribe_distinct:
  "distinct (map ref (subscribers st)) \<Longrightarrow> distinct (map ref (subscribers (snd (subscribe st callback))))"
  by (simp add: subscribe_def set_add_distinct)

lemma unsubscribe_distinct:
  "distinct (map ref (subscribers st)) \<Longrightarrow> distinct (map ref (subscribers (unsubscribe callback st)))"
  by (simp add: unsubscribe_def set_delete_def distinct_map_filter)

lemma filter_absent:
  "x \<notin> set (map f xs) \<Longrightarrow> filter (\<lambda>c. f c \<noteq> x) xs = xs"
  by (induction xs) auto

lemma unsubscribe_absent:
  "ref callback \<notin> set (map ref (subscribers s)) \<Longrightarrow> unsubscribe callback s = s"
  by (simp add: unsubscribe_def set_delete_def filter_absent)

text \<open>
  C8, as the code has it. The subscribers are a \<^verbatim>\<open>Set\<close>, which keeps one element for one
  function object: subscribing a callback a second time changes nothing, so there is one
  registration and a broadcast calls the callback once. The two disposers are the same
  function: either removes that one registration and leaves the other subscribers in
  place. A disposer never fails: in whatever state it is called, it removes the
  registration of its callback if there is one and touches nothing else. So it changes
  nothing when the callback is not registered, as in a second call straight after the
  first; called after the callback has been subscribed again, it removes that new
  registration.
\<close>

theorem subscribe_by_identity:
  assumes "distinct (map ref (subscribers st))"
    and "subscribe st callback = (dispose1, st1)"
    and "subscribe st1 callback = (dispose2, st2)"
  shows "st2 = st1 \<and>
    count_list (map ref (subscribers st2)) (ref callback) = 1 \<and>
    count_list (map fst (drop (length (delivered st2)) (delivered (notifySubscribers st2 d))))
      (ref callback) = 1 \<and>
    dispose2 = dispose1 \<and>
    subscribers (dispose1 st2) = filter (\<lambda>c. ref c \<noteq> ref callback) (subscribers st) \<and>
    dispose2 (dispose1 st2) = dispose1 st2 \<and>
    dispose1 (dispose1 st2) = dispose1 st2 \<and>
    (\<forall>s. dispose1 s = s\<lparr>subscribers := filter (\<lambda>c. ref c \<noteq> ref callback) (subscribers s)\<rparr>) \<and>
    (\<forall>s. ref callback \<notin> set (map ref (subscribers s)) \<longrightarrow> dispose1 s = s) \<and>
    (\<forall>s. ref callback \<in> set (map ref (subscribers (snd (subscribe s callback)))) \<and>
         subscribers (dispose1 (snd (subscribe s callback)))
           = filter (\<lambda>c. ref c \<noteq> ref callback) (subscribers s))"
proof -
  from assms(2) have d1: "dispose1 = unsubscribe callback"
    and st1: "st1 = st\<lparr>subscribers := set_add callback (subscribers st)\<rparr>"
    by (auto simp: subscribe_def)
  from assms(3) have d2: "dispose2 = unsubscribe callback"
    and st2: "st2 = st1\<lparr>subscribers := set_add callback (subscribers st1)\<rparr>"
    by (auto simp: subscribe_def)
  have same: "st2 = st1"
    by (simp add: st2 st1 set_add_twice)
  have dist: "distinct (map ref (subscribers st2))"
    using assms(1) by (simp add: same st1 set_add_distinct)
  have mem: "ref callback \<in> set (map ref (subscribers st2))"
    unfolding same st1 using set_add_member [of callback "subscribers st"] by simp
  have once: "count_list (map ref (subscribers st2)) (ref callback) = 1"
    using dist mem by (rule count_list_distinct)
  have "map fst (drop (length (delivered st2)) (delivered (notifySubscribers st2 d)))
      = map ref (subscribers st2)"
    by (simp add: notifySubscribers_eq comp_def)
  with once have calls: "count_list (map fst (drop (length (delivered st2))
      (delivered (notifySubscribers st2 d)))) (ref callback) = 1"
    by simp
  have gone: "subscribers (dispose1 st2) = filter (\<lambda>c. ref c \<noteq> ref callback) (subscribers st)"
    by (simp add: d1 same st1 unsubscribe_def set_delete_add) (simp add: set_delete_def)
  have idem: "dispose1 (dispose1 st2) = dispose1 st2"
    by (simp add: d1 unsubscribe_def set_delete_def)
  have always: "\<forall>s. dispose1 s = s\<lparr>subscribers := filter (\<lambda>c. ref c \<noteq> ref callback) (subscribers s)\<rparr>"
    by (simp add: d1 unsubscribe_def set_delete_def)
  have absent: "\<forall>s. ref callback \<notin> set (map ref (subscribers s)) \<longrightarrow> dispose1 s = s"
    unfolding d1 using unsubscribe_absent by blast
  have again: "\<forall>s. ref callback \<in> set (map ref (subscribers (snd (subscribe s callback)))) \<and>
         subscribers (dispose1 (snd (subscribe s callback)))
           = filter (\<lambda>c. ref c \<noteq> ref callback) (subscribers s)"
  proof
    fix s
    have "ref callback \<in> set (map ref (subscribers (snd (subscribe s callback))))"
      using set_add_member [of callback "subscribers s"] by (simp add: subscribe_def)
    moreover have "subscribers (dispose1 (snd (subscribe s callback)))
           = filter (\<lambda>c. ref c \<noteq> ref callback) (subscribers s)"
      by (simp add: d1 subscribe_def unsubscribe_def set_delete_add) (simp add: set_delete_def)
    ultimately show "ref callback \<in> set (map ref (subscribers (snd (subscribe s callback)))) \<and>
         subscribers (dispose1 (snd (subscribe s callback)))
           = filter (\<lambda>c. ref c \<noteq> ref callback) (subscribers s)"
      by simp
  qed
  from same once calls gone idem have first: "st2 = st1 \<and>
    count_list (map ref (subscribers st2)) (ref callback) = 1 \<and>
    count_list (map fst (drop (length (delivered st2)) (delivered (notifySubscribers st2 d))))
      (ref callback) = 1 \<and>
    dispose2 = dispose1 \<and>
    subscribers (dispose1 st2) = filter (\<lambda>c. ref c \<noteq> ref callback) (subscribers st) \<and>
    dispose2 (dispose1 st2) = dispose1 st2 \<and>
    dispose1 (dispose1 st2) = dispose1 st2"
    by (simp add: d1 d2)
  from first always absent again show ?thesis
    by blast
qed

theorem subscribe_by_identity_witness:
  "snd (subscribe (snd (subscribe cachedState quietCallback)) quietCallback)
     = snd (subscribe cachedState quietCallback) \<and>
   count_list (map ref (subscribers (snd (subscribe cachedState quietCallback)))) 1 = 1 \<and>
   subscribers (fst (subscribe cachedState quietCallback) (snd (subscribe cachedState quietCallback)))
     = [throwingCallback] \<and>
   fst (subscribe cachedState quietCallback)
     (fst (subscribe cachedState quietCallback) (snd (subscribe cachedState quietCallback)))
     = fst (subscribe cachedState quietCallback) (snd (subscribe cachedState quietCallback)) \<and>
   fst (subscribe cachedState quietCallback) demoState = demoState \<and>
   subscribers (snd (subscribe
       (fst (subscribe cachedState quietCallback) (snd (subscribe cachedState quietCallback)))
       quietCallback))
     = [throwingCallback, quietCallback] \<and>
   subscribers (fst (subscribe cachedState quietCallback)
       (snd (subscribe
          (fst (subscribe cachedState quietCallback) (snd (subscribe cachedState quietCallback)))
          quietCallback)))
     = [throwingCallback]"
proof -
  have d: "distinct (map ref (subscribers cachedState))"
    by (simp add: cachedState_def throwingCallback_def quietCallback_def)
  have a: "subscribe cachedState quietCallback =
      (fst (subscribe cachedState quietCallback), snd (subscribe cachedState quietCallback))"
    by simp
  have b: "subscribe (snd (subscribe cachedState quietCallback)) quietCallback =
      (fst (subscribe (snd (subscribe cachedState quietCallback)) quietCallback),
       snd (subscribe (snd (subscribe cachedState quietCallback)) quietCallback))"
    by simp
  from subscribe_by_identity [OF d a b, of demoProfile]
  have same: "snd (subscribe (snd (subscribe cachedState quietCallback)) quietCallback)
     = snd (subscribe cachedState quietCallback)"
    and once: "count_list (map ref (subscribers
        (snd (subscribe (snd (subscribe cachedState quietCallback)) quietCallback)))) (ref quietCallback) = 1"
    and gone: "subscribers (fst (subscribe cachedState quietCallback)
        (snd (subscribe (snd (subscribe cachedState quietCallback)) quietCallback)))
      = filter (\<lambda>c. ref c \<noteq> ref quietCallback) (subscribers cachedState)"
    and idem: "fst (subscribe cachedState quietCallback)
        (fst (subscribe cachedState quietCallback)
           (snd (subscribe (snd (subscribe cachedState quietCallback)) quietCallback)))
      = fst (subscribe cachedState quietCallback)
           (snd (subscribe (snd (subscribe cachedState quietCallback)) quietCallback))"
    and absent: "\<forall>s. ref quietCallback \<notin> set (map ref (subscribers s)) \<longrightarrow>
        fst (subscribe cachedState quietCallback) s = s"
    and again: "\<forall>s. ref quietCallback \<in> set (map ref (subscribers (snd (subscribe s quietCallback)))) \<and>
        subscribers (fst (subscribe cachedState quietCallback) (snd (subscribe s quietCallback)))
          = filter (\<lambda>c. ref c \<noteq> ref quietCallback) (subscribers s)"
    by blast+
  from once have once': "count_list (map ref (subscribers (snd (subscribe cachedState quietCallback)))) 1 = 1"
    unfolding same by (simp add: quietCallback_def)
  from gone have gone': "subscribers (fst (subscribe cachedState quietCallback) (snd (subscribe cachedState quietCallback)))
     = [throwingCallback]"
    by (simp add: same) (simp add: cachedState_def throwingCallback_def quietCallback_def)
  from idem have idem': "fst (subscribe cachedState quietCallback)
     (fst (subscribe cachedState quietCallback) (snd (subscribe cachedState quietCallback)))
     = fst (subscribe cachedState quietCallback) (snd (subscribe cachedState quietCallback))"
    by (simp add: same)
  have "ref quietCallback \<notin> set (map ref (subscribers demoState))"
    by (simp add: demoState_def constructor_def)
  with absent have absent': "fst (subscribe cachedState quietCallback) demoState = demoState"
    by blast
  have resub: "subscribers (snd (subscribe
       (fst (subscribe cachedState quietCallback) (snd (subscribe cachedState quietCallback)))
       quietCallback))
     = [throwingCallback, quietCallback]"
  proof -
    have "subscribers (snd (subscribe
       (fst (subscribe cachedState quietCallback) (snd (subscribe cachedState quietCallback)))
       quietCallback))
      = set_add quietCallback (subscribers
          (fst (subscribe cachedState quietCallback) (snd (subscribe cachedState quietCallback))))"
      by (simp add: subscribe_def)
    also have "\<dots> = set_add quietCallback [throwingCallback]"
      by (simp only: gone')
    also have "\<dots> = [throwingCallback, quietCallback]"
      by (simp add: set_add_def throwingCallback_def quietCallback_def)
    finally show ?thesis .
  qed
  from again have "subscribers (fst (subscribe cachedState quietCallback)
       (snd (subscribe
          (fst (subscribe cachedState quietCallback) (snd (subscribe cachedState quietCallback)))
          quietCallback)))
     = filter (\<lambda>c. ref c \<noteq> ref quietCallback)
         (subscribers (fst (subscribe cachedState quietCallback) (snd (subscribe cachedState quietCallback))))"
    by blast
  also have "\<dots> = filter (\<lambda>c. ref c \<noteq> ref quietCallback) [throwingCallback]"
    by (simp only: gone')
  also have "\<dots> = [throwingCallback]"
    by (simp add: throwingCallback_def quietCallback_def)
  finally have aba: "subscribers (fst (subscribe cachedState quietCallback)
       (snd (subscribe
          (fst (subscribe cachedState quietCallback) (snd (subscribe cachedState quietCallback)))
          quietCallback)))
     = [throwingCallback]" .
  from same once' gone' idem' absent' resub aba show ?thesis by simp
qed

text \<open>
  C8, as the specification has it, fails: it wants two registrations after the same
  callback is subscribed twice, two calls of it in a broadcast, and one registration left
  after the first disposer has run. On a fresh instance there is one registration, a
  broadcast makes one call, and after the first disposer none is left.
\<close>

theorem subscribe_twice_counterexample:
  "length (subscribers (snd (subscribe (snd (subscribe constructor quietCallback)) quietCallback))) = 1 \<and>
   length (delivered (notifySubscribers
      (snd (subscribe (snd (subscribe constructor quietCallback)) quietCallback)) demoProfile)) = 1 \<and>
   subscribers (fst (subscribe constructor quietCallback)
      (snd (subscribe (snd (subscribe constructor quietCallback)) quietCallback))) = []"
  by (simp add: subscribe_def set_add_def set_delete_def unsubscribe_def constructor_def
      notifySubscribers_eq)

subsection \<open>The \<^verbatim>\<open>lastUpdated\<close> stamp\<close>

lemma demoTime_less: "demoTime < laterTime"
  by (simp add: demoTime_def laterTime_def js_def)

lemma transform_lastUpdated:
  "transform userData now = Inr p \<Longrightarrow> p (js ''lastUpdated'') = Some (Str now)"
  by (auto simp: transform_def andThen_def split: sum.splits)

lemma fetched_lastUpdated:
  "fetched net now = Inr p \<Longrightarrow> p (js ''lastUpdated'') = Some (Str now)"
  by (auto simp: fetched_def transform_lastUpdated split: fetch_outcome.splits if_splits option.splits)

lemma fetch_lastUpdated:
  assumes "cache st (cacheKey (orDefault (Num 1) userId)) = None"
    and "fetchUserProfile st userId net now = (Inr p, st1)"
  shows "lastUpdatedOf st1 (cacheKey (orDefault (Num 1) userId)) = Some (Str now)"
proof (cases "fetched net now")
  case (Inl e)
  with assms show ?thesis
    by (simp add: fetchUserProfile_def Let_def)
next
  case (Inr q)
  with assms have "st1 = st\<lparr>requests := requests st @ [GET (userURL (orDefault (Num 1) userId))],
      cache := (cache st)(cacheKey (orDefault (Num 1) userId) \<mapsto> q)\<rparr>"
    by (auto simp: fetchUserProfile_def Let_def)
  with fetched_lastUpdated [OF Inr] show ?thesis
    by (simp add: lastUpdatedOf_def)
qed

lemma update_lastUpdated:
  assumes "updateUserProfile st userId profileData net now = (Inr p, st2)"
  shows "lastUpdatedOf st2 (cacheKey userId) = Some (Str now)"
proof (cases "updated net")
  case (Inl e)
  with assms show ?thesis
    by (simp add: updateUserProfile_def Let_def)
next
  case (Inr u)
  with assms have "cache st2 (cacheKey userId) =
      Some (merge (case cache st (cacheKey userId) of Some p \<Rightarrow> p | None \<Rightarrow> Map.empty) u now)"
    by (auto simp: updateUserProfile_def Let_def notifySubscribers_eq)
  then show ?thesis
    by (simp add: lastUpdatedOf_def merge_def)
qed

lemma tick_lastUpdated:
  assumes "cache st (js ''user_1'') = Some currentProfile"
  shows "lastUpdatedOf (tick st seen now) (js ''user_1'') = Some (Str now)"
  using assms by (simp add: tick_def Let_def notifySubscribers_eq lastUpdatedOf_def)

text \<open>
  C9, as the code has it. Each write of a cache entry, by a fetch that missed the cache,
  by the merge of an update or by a run of the timer function, sets \<^verbatim>\<open>lastUpdated\<close> to
  the reading of the clock taken for that write. An update or a timer run that overwrites
  an entry stamped \<open>old\<close> therefore leaves a strictly later stamp exactly when its own
  reading is strictly later than \<open>old\<close>.
\<close>

theorem lastUpdated_is_clock_reading:
  "(cache st (cacheKey (orDefault (Num 1) userId)) = None \<and>
    fetchUserProfile st userId net now = (Inr p, st1) \<longrightarrow>
      lastUpdatedOf st1 (cacheKey (orDefault (Num 1) userId)) = Some (Str now)) \<and>
   (updateUserProfile st userId profileData net now = (Inr p, st2) \<longrightarrow>
      lastUpdatedOf st2 (cacheKey userId) = Some (Str now) \<and>
      (\<forall>old. lastUpdatedOf st (cacheKey userId) = Some (Str old) \<longrightarrow>
         stampLess (lastUpdatedOf st (cacheKey userId)) (lastUpdatedOf st2 (cacheKey userId))
           = (old < now))) \<and>
   (cache st (js ''user_1'') = Some currentProfile \<longrightarrow>
      lastUpdatedOf (tick st seen now) (js ''user_1'') = Some (Str now) \<and>
      (\<forall>old. lastUpdatedOf st (js ''user_1'') = Some (Str old) \<longrightarrow>
         stampLess (lastUpdatedOf st (js ''user_1'')) (lastUpdatedOf (tick st seen now) (js ''user_1''))
           = (old < now)))"
proof (intro conjI impI allI)
  assume "cache st (cacheKey (orDefault (Num 1) userId)) = None \<and>
    fetchUserProfile st userId net now = (Inr p, st1)"
  then show "lastUpdatedOf st1 (cacheKey (orDefault (Num 1) userId)) = Some (Str now)"
    using fetch_lastUpdated by blast
next
  assume "updateUserProfile st userId profileData net now = (Inr p, st2)"
  then show "lastUpdatedOf st2 (cacheKey userId) = Some (Str now)"
    by (rule update_lastUpdated)
next
  fix old
  assume "updateUserProfile st userId profileData net now = (Inr p, st2)"
    and "lastUpdatedOf st (cacheKey userId) = Some (Str old)"
  then show "stampLess (lastUpdatedOf st (cacheKey userId)) (lastUpdatedOf st2 (cacheKey userId))
      = (old < now)"
    by (simp add: update_lastUpdated stampLess_def)
next
  assume "cache st (js ''user_1'') = Some currentProfile"
  then show "lastUpdatedOf (tick st seen now) (js ''user_1'') = Some (Str now)"
    by (rule tick_lastUpdated)
next
  fix old
  assume "cache st (js ''user_1'') = Some currentProfile"
    and "lastUpdatedOf st (js ''user_1'') = Some (Str old)"
  then show "stampLess (lastUpdatedOf st (js ''user_1'')) (lastUpdatedOf (tick st seen now) (js ''user_1''))
      = (old < now)"
    by (simp add: tick_lastUpdated stampLess_def)
qed

theorem lastUpdated_is_clock_reading_witness:
  "lastUpdatedOf (snd (fetchUserProfile constructor (Num 1) (Resolves 200 (Some demoUser)) demoTime))
     (js ''user_1'') = Some (Str demoTime) \<and>
   lastUpdatedOf (snd (updateUserProfile demoState (Num 1) Null (Resolves 200 (Some Null)) laterTime))
     (js ''user_1'') = Some (Str laterTime) \<and>
   stampLess (lastUpdatedOf demoState (js ''user_1''))
     (lastUpdatedOf (snd (updateUserProfile demoState (Num 1) Null (Resolves 200 (Some Null)) laterTime))
        (js ''user_1'')) \<and>
   lastUpdatedOf (tick demoState laterTime laterTime) (js ''user_1'') = Some (Str laterTime) \<and>
   stampLess (lastUpdatedOf demoState (js ''user_1''))
     (lastUpdatedOf (tick demoState laterTime laterTime) (js ''user_1''))"
proof -
  have miss: "cache constructor (cacheKey (orDefault (Num 1) (Num 1))) = None"
    by (simp add: constructor_def)
  have hit: "cache demoState (js ''user_1'') = Some demoProfile"
    by (simp add: demoState_def)
  have old: "lastUpdatedOf demoState (js ''user_1'') = Some (Str demoTime)"
    by (simp add: lastUpdatedOf_def demoState_def demoProfile_def)
  have f: "fetchUserProfile constructor (Num 1) (Resolves 200 (Some demoUser)) demoTime =
      (Inr demoProfile, snd (fetchUserProfile constructor (Num 1) (Resolves 200 (Some demoUser)) demoTime))"
    by (simp add: fetch_demo)
  have u: "updateUserProfile demoState (Num 1) Null (Resolves 200 (Some Null)) laterTime =
      (Inr (merge demoProfile Null laterTime),
       snd (updateUserProfile demoState (Num 1) Null (Resolves 200 (Some Null)) laterTime))"
    by (simp add: updateUserProfile_Inr ok_def Let_def key1 demoState_def)
  note inst = lastUpdated_is_clock_reading [where st = constructor and userId = "Num 1"
      and net = "Resolves 200 (Some demoUser)" and now = demoTime and p = demoProfile
      and ?st1.0 = "snd (fetchUserProfile constructor (Num 1) (Resolves 200 (Some demoUser)) demoTime)"]
  with miss f have a: "lastUpdatedOf (snd (fetchUserProfile constructor (Num 1) (Resolves 200 (Some demoUser)) demoTime))
     (js ''user_1'') = Some (Str demoTime)"
    by (simp add: orDefault_def key1)
  note inst2 = lastUpdated_is_clock_reading [where st = demoState and userId = "Num 1"
      and profileData = Null and net = "Resolves 200 (Some Null)" and now = laterTime
      and p = "merge demoProfile Null laterTime"
      and ?st2.0 = "snd (updateUserProfile demoState (Num 1) Null (Resolves 200 (Some Null)) laterTime)"
      and currentProfile = demoProfile and seen = laterTime and ?st1.0 = demoState]
  with u old hit demoTime_less
  have b: "lastUpdatedOf (snd (updateUserProfile demoState (Num 1) Null (Resolves 200 (Some Null)) laterTime))
       (js ''user_1'') = Some (Str laterTime)"
    and c: "stampLess (lastUpdatedOf demoState (js ''user_1''))
     (lastUpdatedOf (snd (updateUserProfile demoState (Num 1) Null (Resolves 200 (Some Null)) laterTime))
        (js ''user_1''))"
    and d: "lastUpdatedOf (tick demoState laterTime laterTime) (js ''user_1'') = Some (Str laterTime)"
    and e: "stampLess (lastUpdatedOf demoState (js ''user_1''))
     (lastUpdatedOf (tick demoState laterTime laterTime) (js ''user_1''))"
    by (simp_all add: key1 stampLess_def)
  from a b c d e show ?thesis by simp
qed

text \<open>
  C9, as the specification has it, fails: \<^verbatim>\<open>lastUpdated\<close> need not grow from one write to
  the next. The clock counts milliseconds; a fetch and a run of the timer function that
  read the same millisecond write the same stamp twice.
\<close>

theorem lastUpdated_strict_counterexample:
  "lastUpdatedOf (snd (fetchUserProfile constructor (Num 1) (Resolves 200 (Some demoUser)) demoTime))
     (js ''user_1'') = Some (Str demoTime) \<and>
   lastUpdatedOf
     (tick (snd (fetchUserProfile constructor (Num 1) (Resolves 200 (Some demoUser)) demoTime))
        demoTime demoTime)
     (js ''user_1'') = Some (Str demoTime) \<and>
   \<not> stampLess
     (lastUpdatedOf (snd (fetchUserProfile constructor (Num 1) (Resolves 200 (Some demoUser)) demoTime))
        (js ''user_1''))
     (lastUpdatedOf
        (tick (snd (fetchUserProfile constructor (Num 1) (Resolves 200 (Some demoUser)) demoTime))
           demoTime demoTime)
        (js ''user_1''))"
  by (simp add: fetch_demo lastUpdatedOf_def demoState_def tick_def Let_def notifySubscribers_eq
      stampLess_def demoProfile_def)

end
